theory Spec2Isabelle
  imports Complex_Main
begin

section \<open>Values of the host language\<close>

text \<open>
  A JavaScript number is a double: a finite value, one of the two infinities or NaN.
  Only its truthiness matters below (\<open>if (params?.limit)\<close>): a number is
  falsy when it is zero or NaN.
\<close>

datatype number = Finite real | NaN | PosInfinity | NegInfinity

definition truthy_number :: "number \<Rightarrow> bool" where
  "truthy_number n = (n \<noteq> Finite 0 \<and> n \<noteq> NaN)"

text \<open>
  An object that is not an array is given by its kind and by what \<open>Object.entries\<close>
  reads of it: its own enumerable string-keyed properties, in enumeration order. A
  plain object is one made by an object literal, by \<open>Object.fromEntries\<close> or by
  \<open>JSON.parse\<close>: it has no internal state and inherits no enumerable property. Any
  other object (a \<open>Date\<close>, a \<open>Map\<close>, a typed array, a class instance, an object made
  by \<open>Object.create\<close>) carries a label that stands for its class and its internal
  state, and the names of the enumerable string-keyed properties it inherits, each
  once, in the order of its prototype chain.
\<close>

datatype object_kind = PlainObject | OtherObject string "string list"

text \<open>
  The values the helper receives as \<open>unknown\<close>. Arrays are dense. Strings are lists
  of characters; the only character the code looks at is the slash.
\<close>

datatype jsval =
    JUndefined
  | JNull
  | JBool bool
  | JNum number
  | JStr string
  | JArr "jsval list"
  | JObj object_kind "(string \<times> jsval) list"

text \<open>
  Every failure of the helper is \<open>throw new Error(message)\<close>; a \<open>TypeError\<close> is what
  the runtime raises when a parameter pattern destructures \<open>null\<close>, with a message
  of the engine's own that is not modelled.
\<close>

datatype error = Error string | TypeError

subsection \<open>String and array primitives\<close>

text \<open>\<open>String.prototype.split(sep)\<close> for a one-character separator.\<close>

fun split :: "char \<Rightarrow> string \<Rightarrow> string list" where
  "split c [] = [[]]"
| "split c (x # xs) =
     (if x = c then [] # split c xs
      else (case split c xs of [] \<Rightarrow> [[x]] | w # ws \<Rightarrow> (x # w) # ws))"

text \<open>\<open>Array.prototype.join(sep)\<close> on an array of strings.\<close>

fun join :: "string \<Rightarrow> string list \<Rightarrow> string" where
  "join sep [] = []"
| "join sep [x] = x"
| "join sep (x # y # ys) = x @ sep @ join sep (y # ys)"

text \<open>\<open>s.includes('/')\<close> and \<open>s.replace(/^\/+/, '')\<close>.\<close>

definition includes_slash :: "string \<Rightarrow> bool" where
  "includes_slash s = (CHR ''/'' \<in> set s)"

definition strip_leading_slashes :: "string \<Rightarrow> string" where
  "strip_leading_slashes s = dropWhile (\<lambda>c. c = CHR ''/'') s"

text \<open>
  \<open>Object.fromEntries\<close> builds an object by defining the listed properties one
  after the other, so that a key listed twice keeps its first position and its last
  value.
\<close>

fun define_property :: "(string \<times> jsval) list \<Rightarrow> string \<Rightarrow> jsval \<Rightarrow> (string \<times> jsval) list" where
  "define_property [] k v = [(k, v)]"
| "define_property ((k', v') # ps) k v =
     (if k' = k then (k, v) # ps else (k', v') # define_property ps k v)"

definition fromEntries :: "(string \<times> jsval) list \<Rightarrow> (string \<times> jsval) list" where
  "fromEntries es = foldl (\<lambda>obj (k, v). define_property obj k v) [] es"

section \<open>The session handle and its process-wide provider\<close>

record DB =
  project_id :: string
  jwt :: string

text \<open>
  \<open>DBProvider\<close> is a singleton holding \<open>db: DB | null\<close>, \<open>null\<close> until
  \<open>initialize\<close> has run. The provider's state is that field.
\<close>

type_synonym DBProvider = "DB option"

definition DBProvider_getDB :: "DBProvider \<Rightarrow> error + DB" where
  "DBProvider_getDB provider =
     (case provider of
        None \<Rightarrow> Inl (Error ''DBProvider has not been initialized. Call DBProvider.getInstance().initialize() first.'')
      | Some d \<Rightarrow> Inr d)"

section \<open>The data helper\<close>

record FireworkersDataHelper =
  db :: "DB option"
  collectionSegments :: "string list"
  parentDocumentSegments :: "string list"
  collectionId :: string

text \<open>The constructor's \<open>collectionPath: string | string[]\<close>.\<close>

datatype collectionPath = PathString string | PathSegments "string list"

definition normalizedPath :: "collectionPath \<Rightarrow> string list" where
  "normalizedPath p = (case p of PathSegments segs \<Rightarrow> segs | PathString s \<Rightarrow> split CHR ''/'' s)"

definition new_FireworkersDataHelper :: "collectionPath \<Rightarrow> DB option \<Rightarrow> error + FireworkersDataHelper" where
  "new_FireworkersDataHelper p d =
     (let segs = filter (\<lambda>segment. length segment \<noteq> 0) (normalizedPath p) in
      if length segs = 0 then Inl (Error ''Collection path must include at least one segment.'')
      else if length segs mod 2 = 0 then Inl (Error ''Collection path must end in a collection identifier.'')
      else Inr \<lparr> db = d, collectionSegments = segs,
                 parentDocumentSegments = butlast segs, collectionId = last segs \<rparr>)"

definition getDB :: "FireworkersDataHelper \<Rightarrow> DBProvider \<Rightarrow> error + DB" where
  "getDB h provider = (case db h of Some d \<Rightarrow> Inr d | None \<Rightarrow> DBProvider_getDB provider)"


text \<open>
  \<open>xs.map(f)\<close> where \<open>f\<close> may throw: the elements are visited in order and the first
  exception ends the loop.
\<close>

fun array_map :: "('a \<Rightarrow> error + 'b) \<Rightarrow> 'a list \<Rightarrow> error + 'b list" where
  "array_map f [] = Inr []"
| "array_map f (x # xs) =
     (case f x of
        Inl e \<Rightarrow> Inl e
      | Inr y \<Rightarrow> (case array_map f xs of Inl e \<Rightarrow> Inl e | Inr ys \<Rightarrow> Inr (y # ys)))"

lemma array_map_cong [fundef_cong]:
  "xs = ys \<Longrightarrow> (\<And>x. x \<in> set ys \<Longrightarrow> f x = g x) \<Longrightarrow> array_map f xs = array_map g ys"
  by (induction ys arbitrary: xs) (auto split: sum.splits)

section \<open>Wire values and structured queries\<close>

text \<open>
  Modelled from the spec: \<open>Firestore.Value\<close>, \<open>Firestore.Filter\<close> and
  \<open>Firestore.StructuredQuery\<close> are declared in \<open>types.js\<close>, which is not among the
  sources; the shapes are the ones of the spec's section on external interfaces.
  The helper itself builds only \<open>referenceValue\<close> and \<open>arrayValue\<close>; every other
  variant comes out of the value codec.
\<close>

datatype Value =
    NullValue
  | BooleanValue bool
  | IntegerValue int
  | DoubleValue number
  | StringValue string
  | BytesValue string
  | TimestampValue string
  | ReferenceValue string
  | GeoPointValue number number
  | ArrayValue "Value list"
  | MapValue "(string \<times> Value) list"

datatype FieldFilterOp =
    EQUAL | NOT_EQUAL | LESS_THAN | LESS_THAN_OR_EQUAL | GREATER_THAN
  | GREATER_THAN_OR_EQUAL | ARRAY_CONTAINS | ARRAY_CONTAINS_ANY | OP_IN | OP_NOT_IN

datatype CompositeFilterOp = OP_AND | OP_OR

datatype Filter =
    FieldFilter string FieldFilterOp Value
  | CompositeFilter CompositeFilterOp "Filter list"

datatype Direction = ASCENDING | DESCENDING

record Order =
  fieldPath :: string
  direction :: Direction

record StructuredQuery =
  q_from :: "string list"
  q_where :: "Filter option"
  q_orderBy :: "Order list option"
  q_limit :: "number option"

text \<open>
  The value codec \<open>convert_field_to_value\<close> lives in \<open>fields.js\<close>, which is not among
  the sources: the helper's functions take it as a parameter.
\<close>

type_synonym codec = "jsval \<Rightarrow> error + Value"

section \<open>Filter trees\<close>

datatype DataFilterType =
    isEqualTo | isNotEqualTo | isLessThan | isLessThanOrEqualTo | isGreaterThan
  | isGreaterThanOrEqualTo | arrayContains | arrayContainsAny | whereIn | whereNotIn

datatype DataFilterWrapperType = wrapper_or | wrapper_and

record DataSort =
  field :: string
  ascending :: bool

text \<open>
  \<open>DataFilter(fieldName, value, filterType)\<close> and
  \<open>DataFilterWrapper(filterWrapperType, filters)\<close>. The code tells a wrapper from a
  leaf with \<open>isDataFilterWrapper\<close> (a \<open>filterWrapperType\<close> and an array of
  \<open>filters\<close>); the two constructors stand for the two outcomes of that test.
\<close>

datatype FilterNode =
    DataFilter string jsval DataFilterType
  | DataFilterWrapper DataFilterWrapperType "FilterNode list"

definition DOCUMENT_ID_FIELD :: string where
  "DOCUMENT_ID_FIELD = ''__name__''"

definition MAX_IN_FILTER_VALUES :: nat where
  "MAX_IN_FILTER_VALUES = 10"

fun FILTER_TYPE_TO_OPERATOR :: "DataFilterType \<Rightarrow> FieldFilterOp" where
  "FILTER_TYPE_TO_OPERATOR isEqualTo = EQUAL"
| "FILTER_TYPE_TO_OPERATOR isNotEqualTo = NOT_EQUAL"
| "FILTER_TYPE_TO_OPERATOR isLessThan = LESS_THAN"
| "FILTER_TYPE_TO_OPERATOR isLessThanOrEqualTo = LESS_THAN_OR_EQUAL"
| "FILTER_TYPE_TO_OPERATOR isGreaterThan = GREATER_THAN"
| "FILTER_TYPE_TO_OPERATOR isGreaterThanOrEqualTo = GREATER_THAN_OR_EQUAL"
| "FILTER_TYPE_TO_OPERATOR arrayContains = ARRAY_CONTAINS"
| "FILTER_TYPE_TO_OPERATOR arrayContainsAny = ARRAY_CONTAINS_ANY"
| "FILTER_TYPE_TO_OPERATOR whereIn = OP_IN"
| "FILTER_TYPE_TO_OPERATOR whereNotIn = OP_NOT_IN"

section \<open>The helper's private functions\<close>

fun replaceUndefinedWithNull :: "jsval \<Rightarrow> jsval" where
  "replaceUndefinedWithNull JUndefined = JNull"
| "replaceUndefinedWithNull (JArr items) = JArr (map replaceUndefinedWithNull items)"
| "replaceUndefinedWithNull (JObj kind obj) =
     JObj PlainObject
       (fromEntries (map (\<lambda>(key, val). (key, replaceUndefinedWithNull val)) obj))"
| "replaceUndefinedWithNull v = v"

definition getDocumentPath :: "FireworkersDataHelper \<Rightarrow> string \<Rightarrow> error + string list" where
  "getDocumentPath h docId =
     (if docId = [] \<or> includes_slash docId
      then Inl (Error ''Document ids cannot be empty or contain slashes.'')
      else Inr (collectionSegments h @ [docId]))"

definition buildDocumentReferencePath ::
  "FireworkersDataHelper \<Rightarrow> DBProvider \<Rightarrow> string \<Rightarrow> error + string" where
  "buildDocumentReferencePath h provider docIdOrPath =
     (let hasPathSeparator = includes_slash docIdOrPath;
          relativePath = (if hasPathSeparator then strip_leading_slashes docIdOrPath
                          else join ''/'' (collectionSegments h @ [docIdOrPath]))
      in case getDB h provider of
           Inl e \<Rightarrow> Inl e
         | Inr d \<Rightarrow> Inr (''projects/'' @ project_id d @ ''/databases/(default)/documents/'' @ relativePath))"

fun buildDocumentNameValue :: "FireworkersDataHelper \<Rightarrow> DBProvider \<Rightarrow> jsval \<Rightarrow> error + Value" where
  "buildDocumentNameValue h provider (JArr items) =
     (case array_map (buildDocumentNameValue h provider) items of
        Inl e \<Rightarrow> Inl e
      | Inr values \<Rightarrow> Inr (ArrayValue values))"
| "buildDocumentNameValue h provider (JStr s) =
     (if length s = 0 then Inl (Error ''Document id filters require a non-empty string value.'')
      else (case buildDocumentReferencePath h provider s of
              Inl e \<Rightarrow> Inl e
            | Inr referencePath \<Rightarrow> Inr (ReferenceValue referencePath)))"
| "buildDocumentNameValue h provider v =
     Inl (Error ''Document id filters require a non-empty string value.'')"

definition buildFieldValue ::
  "codec \<Rightarrow> FireworkersDataHelper \<Rightarrow> DBProvider \<Rightarrow> string \<Rightarrow> jsval \<Rightarrow> error + Value" where
  "buildFieldValue convert_field_to_value h provider fieldName v =
     (if fieldName = DOCUMENT_ID_FIELD then buildDocumentNameValue h provider v
      else convert_field_to_value (replaceUndefinedWithNull v))"

definition combineFilters :: "DataFilterWrapperType \<Rightarrow> Filter list \<Rightarrow> Filter" where
  "combineFilters type filters =
     CompositeFilter (if type = wrapper_and then OP_AND else OP_OR) filters"

text \<open>\<open>.filter(Boolean)\<close> on a list of compiled filters, \<open>undefined\<close> being \<open>None\<close>.\<close>

fun filter_Boolean :: "'a option list \<Rightarrow> 'a list" where
  "filter_Boolean [] = []"
| "filter_Boolean (None # xs) = filter_Boolean xs"
| "filter_Boolean (Some x # xs) = x # filter_Boolean xs"

fun buildFilters ::
  "codec \<Rightarrow> FireworkersDataHelper \<Rightarrow> DBProvider \<Rightarrow> FilterNode list \<Rightarrow> DataFilterWrapperType
     \<Rightarrow> error + Filter option"
and buildFilter ::
  "codec \<Rightarrow> FireworkersDataHelper \<Rightarrow> DBProvider \<Rightarrow> FilterNode \<Rightarrow> error + Filter option"
where
  "buildFilters conv h provider filters wrapperType =
     (case array_map (buildFilter conv h provider) filters of
        Inl e \<Rightarrow> Inl e
      | Inr results \<Rightarrow>
          (let builtFilters = filter_Boolean results in
           if length builtFilters = 0 then Inr None
           else if length builtFilters = 1 then Inr (Some (builtFilters ! 0))
           else Inr (Some (combineFilters wrapperType builtFilters))))"
| "buildFilter conv h provider (DataFilterWrapper filterWrapperType filters) =
     buildFilters conv h provider filters filterWrapperType"
| "buildFilter conv h provider (DataFilter fieldName v filterType) =
     (case buildFieldValue conv h provider fieldName v of
        Inl e \<Rightarrow> Inl e
      | Inr fv \<Rightarrow> Inr (Some (FieldFilter fieldName (FILTER_TYPE_TO_OPERATOR filterType) fv)))"

section \<open>The helper's public methods\<close>

text \<open>
  The transport operations are injected (\<open>FireworkersOperations\<close>), so what a method
  does is fixed by the one operation call it makes, with its arguments, or by the
  error it throws before any call. A \<open>set\<close> or \<open>query\<close> call receives the handle
  returned by \<open>getDB()\<close>; an \<open>update\<close> or \<open>remove\<close> call receives the field
  \<open>this.db\<close> as it is, which may be \<open>null\<close>.
\<close>

datatype call =
    SetCall DB "string list" jsval "bool option"
  | UpdateCall "DB option" "string list" jsval
  | RemoveCall "DB option" "string list"
  | QueryCall DB StructuredQuery "string list"

record getData_params =
  filters :: "FilterNode list option"
  limit :: "number option"
  sortBy :: "DataSort option"

definition addData ::
  "FireworkersDataHelper \<Rightarrow> DBProvider \<Rightarrow> jsval \<Rightarrow> string \<Rightarrow> bool \<Rightarrow> error + call" where
  "addData h provider data docId merge =
     (let sanitized = replaceUndefinedWithNull data in
      case getDocumentPath h docId of
        Inl e \<Rightarrow> Inl e
      | Inr documentPath \<Rightarrow>
          (case getDB h provider of
             Inl e \<Rightarrow> Inl e
           | Inr d \<Rightarrow>
               if merge then Inr (SetCall d documentPath sanitized (Some True))
               else Inr (SetCall d documentPath sanitized None)))"

definition getData ::
  "codec \<Rightarrow> FireworkersDataHelper \<Rightarrow> DBProvider \<Rightarrow> getData_params option \<Rightarrow> error + call" where
  "getData conv h provider params =
     (let structuredQuery =
            \<lparr> q_from = [collectionId h], q_where = None, q_orderBy = None, q_limit = None \<rparr>
      in case (case Option.bind params filters of
                 None \<Rightarrow> Inr None
               | Some fs \<Rightarrow> if length fs \<noteq> 0 then buildFilters conv h provider fs wrapper_and
                            else Inr None) of
           Inl e \<Rightarrow> Inl e
         | Inr wh \<Rightarrow>
             (let q1 = (case wh of None \<Rightarrow> structuredQuery
                        | Some w \<Rightarrow> structuredQuery \<lparr> q_where := Some w \<rparr>);
                  q2 = (case Option.bind params limit of
                          None \<Rightarrow> q1
                        | Some n \<Rightarrow> if truthy_number n then q1 \<lparr> q_limit := Some n \<rparr> else q1);
                  q3 = (case Option.bind params sortBy of
                          None \<Rightarrow> q2
                        | Some s \<Rightarrow>
                            q2 \<lparr> q_orderBy :=
                                   Some [\<lparr> fieldPath = field s,
                                           direction = (if ascending s then ASCENDING
                                                        else DESCENDING) \<rparr>] \<rparr>)
              in case getDB h provider of
                   Inl e \<Rightarrow> Inl e
                 | Inr d \<Rightarrow> Inr (QueryCall d q3 (parentDocumentSegments h))))"

definition getSingleDocument ::
  "FireworkersDataHelper \<Rightarrow> DBProvider \<Rightarrow> string \<Rightarrow> error + call" where
  "getSingleDocument h provider docId =
     (case buildDocumentNameValue h provider (JStr docId) of
        Inl e \<Rightarrow> Inl e
      | Inr nameValue \<Rightarrow>
          (let structuredQuery =
                 \<lparr> q_from = [collectionId h],
                   q_where = Some (FieldFilter DOCUMENT_ID_FIELD EQUAL nameValue),
                   q_orderBy = None,
                   q_limit = Some (Finite 1) \<rparr>
           in case getDB h provider of
                Inl e \<Rightarrow> Inl e
              | Inr d \<Rightarrow> Inr (QueryCall d structuredQuery (parentDocumentSegments h))))"

definition updateField ::
  "FireworkersDataHelper \<Rightarrow> DBProvider \<Rightarrow> string \<Rightarrow> jsval \<Rightarrow> error + call" where
  "updateField h provider docId updateFields =
     (let sanitized = replaceUndefinedWithNull updateFields in
      case getDocumentPath h docId of
        Inl e \<Rightarrow> Inl e
      | Inr documentPath \<Rightarrow> Inr (UpdateCall (db h) documentPath sanitized))"

definition deleteDocument ::
  "FireworkersDataHelper \<Rightarrow> DBProvider \<Rightarrow> string \<Rightarrow> error + call" where
  "deleteDocument h provider docId =
     (case getDocumentPath h docId of
        Inl e \<Rightarrow> Inl e
      | Inr documentPath \<Rightarrow> Inr (RemoveCall (db h) documentPath))"

text \<open>
  \<open>getDocsByIds\<close> returns the empty list without any call when it is given no id:
  its result is the call it makes, if any.
\<close>

definition getDocsByIds ::
  "FireworkersDataHelper \<Rightarrow> DBProvider \<Rightarrow> string list \<Rightarrow> error + call option" where
  "getDocsByIds h provider ids =
     (if length ids = 0 then Inr None
      else if length ids > MAX_IN_FILTER_VALUES
      then Inl (Error ''Firestore supports a maximum of 10 ids per request.'')
      else (case buildDocumentNameValue h provider (JArr (map JStr ids)) of
              Inl e \<Rightarrow> Inl e
            | Inr nameValue \<Rightarrow>
                (let structuredQuery =
                       \<lparr> q_from = [collectionId h],
                         q_where = Some (FieldFilter DOCUMENT_ID_FIELD OP_IN nameValue),
                         q_orderBy = None,
                         q_limit = None \<rparr>
                 in case getDB h provider of
                      Inl e \<Rightarrow> Inl e
                    | Inr d \<Rightarrow> Inr (Some (QueryCall d structuredQuery (parentDocumentSegments h))))))"

section \<open>The \<open>update\<close> operation\<close>

text \<open>
  \<open>URLSearchParams\<close> is an ordered list of name-value pairs. \<open>set\<close> gives the first
  pair of that name the new value and deletes the other pairs of that name, or
  appends the pair when the name is new; \<open>append\<close> adds a pair at the end.
\<close>

type_synonym URLSearchParams = "(string \<times> string) list"

fun searchParams_set :: "URLSearchParams \<Rightarrow> string \<Rightarrow> string \<Rightarrow> URLSearchParams" where
  "searchParams_set [] name v = [(name, v)]"
| "searchParams_set ((n, x) # ps) name v =
     (if n = name then (name, v) # filter (\<lambda>(n', _). n' \<noteq> name) ps
      else (n, x) # searchParams_set ps name v)"

definition searchParams_append :: "URLSearchParams \<Rightarrow> string \<Rightarrow> string \<Rightarrow> URLSearchParams" where
  "searchParams_append ps name v = ps @ [(name, v)]"

record URL =
  href :: string
  searchParams :: URLSearchParams

text \<open>The arguments of the \<open>fetch\<close> call that \<open>update\<close> makes.\<close>

record 'body fetch_request =
  endpoint :: URL
  http_method :: string
  body :: 'body
  headers :: "(string \<times> string) list"

text \<open>
  \<open>for (const key in fields)\<close> visits the enumerable string-keyed properties of the
  object: its own ones first, then the inherited ones that no own property shadows.
\<close>

fun for_in_keys :: "object_kind \<times> (string \<times> jsval) list \<Rightarrow> string list" where
  "for_in_keys (PlainObject, own) = map fst own"
| "for_in_keys (OtherObject label inherited, own) =
     map fst own @ filter (\<lambda>key. key \<notin> set (map fst own)) inherited"

text \<open>
  \<open>get_firestore_endpoint\<close> (\<open>utils.js\<close>) and \<open>create_document_from_fields\<close>
  (\<open>fields.js\<close>) are not among the sources: \<open>update\<close> takes them as parameters.
  The rest arguments \<open>...args\<close> are the path segments followed by the fields object,
  given by its kind and its own properties. The handle is destructured in the
  parameter list, which raises a \<open>TypeError\<close> on \<open>null\<close> before the body runs.
\<close>

definition update ::
  "(string \<Rightarrow> string list \<Rightarrow> URL) \<Rightarrow> (object_kind \<times> (string \<times> jsval) list \<Rightarrow> 'body)
     \<Rightarrow> DB option \<Rightarrow> string list \<Rightarrow> object_kind \<times> (string \<times> jsval) list
     \<Rightarrow> error + 'body fetch_request" where
  "update get_firestore_endpoint create_document_from_fields firestore paths fields_obj =
     (case firestore of
        None \<Rightarrow> Inl TypeError
      | Some d \<Rightarrow>
          (let payload = create_document_from_fields fields_obj;
               endpoint0 = get_firestore_endpoint (project_id d) paths;
               endpoint1 = endpoint0 \<lparr> searchParams :=
                             searchParams_set (searchParams endpoint0) ''currentDocument.exists'' ''true'' \<rparr>;
               endpoint2 = foldl (\<lambda>e key. e \<lparr> searchParams :=
                                     searchParams_append (searchParams e) ''updateMask.fieldPaths'' key \<rparr>)
                             endpoint1 (for_in_keys fields_obj)
           in Inr \<lparr> endpoint = endpoint2, http_method = ''PATCH'', body = payload,
                    headers = [(''Authorization'', ''Bearer '' @ jwt d)] \<rparr>))"

section \<open>Notions used to state the properties\<close>





text \<open>A compiled filter has no redundant composite when every composite in it has at
  least two members.\<close>

fun no_redundant_composite :: "Filter \<Rightarrow> bool" where
  "no_redundant_composite (FieldFilter name op v) = True"
| "no_redundant_composite (CompositeFilter op fs) =
     (2 \<le> length fs \<and> list_all no_redundant_composite fs)"

text \<open>
  A wire value is made of references only when it is a \<open>referenceValue\<close> or an
  \<open>arrayValue\<close> of such values.
\<close>

fun references_only :: "Value \<Rightarrow> bool" where
  "references_only (ReferenceValue r) = True"
| "references_only (ArrayValue vs) = list_all references_only vs"
| "references_only v = False"

text \<open>The values of the search parameters of a given name, in order.\<close>

definition getAll :: "URLSearchParams \<Rightarrow> string \<Rightarrow> string list" where
  "getAll ps name = map snd (filter (\<lambda>(n, _). n = name) ps)"

subsection \<open>Example data\<close>

text \<open>The handle, the helpers and the ids that the repository's tests use.\<close>

definition demo_db :: DB where
  "demo_db = \<lparr> project_id = ''demo-project'', jwt = ''fake-jwt'' \<rparr>"

definition todos_helper :: FireworkersDataHelper where
  "todos_helper = \<lparr> db = Some demo_db, collectionSegments = [''todos''],
                     parentDocumentSegments = [], collectionId = ''todos'' \<rparr>"

definition todos_helper_without_db :: FireworkersDataHelper where
  "todos_helper_without_db = \<lparr> db = None, collectionSegments = [''todos''],
                                parentDocumentSegments = [], collectionId = ''todos'' \<rparr>"

definition user_todos_helper :: FireworkersDataHelper where
  "user_todos_helper = \<lparr> db = Some demo_db, collectionSegments = [''users'', ''user-1'', ''todos''],
                          parentDocumentSegments = [''users'', ''user-1''], collectionId = ''todos'' \<rparr>"

definition ten_ids :: "string list" where
  "ten_ids = [''doc-0'', ''doc-1'', ''doc-2'', ''doc-3'', ''doc-4'', ''doc-5'',
              ''doc-6'', ''doc-7'', ''doc-8'', ''doc-9'']"

definition ten_ids_one_empty :: "string list" where
  "ten_ids_one_empty = [''doc-0'', ''doc-1'', ''doc-2'', ''doc-3'', ''doc-4'', ''doc-5'',
                        ''doc-6'', ''doc-7'', ''doc-8'', '''']"



definition sample_fields_with_prototype :: "object_kind \<times> (string \<times> jsval) list" where
  "sample_fields_with_prototype =
     (OtherObject ''Object.create'' [''owner''], [(''title'', JStr ''example'')])"

text \<open>
  Modelled from the spec: the encoder of the value codec (\<open>convert_field_to_value\<close> of
  \<open>fields.js\<close>, not among the sources): null and absent values give the null
  variant, whole numbers in the signed 64-bit range the integer variant and every
  other number the double variant, arrays and objects are encoded element by element.
  It only instantiates the codec parameter in the examples, where the helper hands it
  sanitized values, whose objects are all plain; it encodes every object by its
  entries.
\<close>

fun convert_field_to_value :: "jsval \<Rightarrow> Value" where
  "convert_field_to_value JUndefined = NullValue"
| "convert_field_to_value JNull = NullValue"
| "convert_field_to_value (JBool b) = BooleanValue b"
| "convert_field_to_value (JNum (Finite r)) =
     (if of_int \<lfloor>r\<rfloor> = r \<and> - (2 ^ 63) \<le> r \<and> r < 2 ^ 63 then IntegerValue \<lfloor>r\<rfloor>
      else DoubleValue (Finite r))"
| "convert_field_to_value (JNum n) = DoubleValue n"
| "convert_field_to_value (JStr s) = StringValue s"
| "convert_field_to_value (JArr items) = ArrayValue (map convert_field_to_value items)"
| "convert_field_to_value (JObj kind obj) =
     MapValue (map (\<lambda>(key, val). (key, convert_field_to_value val)) obj)"

definition example_codec :: codec where
  "example_codec v = Inr (convert_field_to_value v)"

text \<open>
  An endpoint without search parameters and the own properties of the fields object
  as the payload instantiate the two parameters of \<open>update\<close> in the examples.
\<close>

definition example_endpoint :: "string \<Rightarrow> string list \<Rightarrow> URL" where
  "example_endpoint project paths =
     \<lparr> href = ''https://firestore.googleapis.com/v1/projects/'' @ project
                @ ''/databases/(default)/documents/'' @ join ''/'' paths,
       searchParams = [] \<rparr>"

section \<open>Auxiliary facts\<close>

subsection \<open>Strings and arrays\<close>


lemma join_snoc: "xs \<noteq> [] \<Longrightarrow> join sep (xs @ [x]) = join sep xs @ sep @ x"
  by (induction sep xs rule: join.induct) auto

lemma strip_leading_slashes_decomp:
  "\<exists>n. s = replicate n CHR ''/'' @ strip_leading_slashes s"
proof -
  let ?t = "takeWhile (\<lambda>c. c = CHR ''/'') s"
  have "\<forall>y\<in>set ?t. y = CHR ''/''"
    by (auto dest: set_takeWhileD)
  then have "replicate (length ?t) CHR ''/'' = ?t"
    by (rule replicate_length_same)
  then have "s = replicate (length ?t) CHR ''/'' @ strip_leading_slashes s"
    by (simp add: strip_leading_slashes_def)
  then show ?thesis ..
qed

lemma strip_leading_slashes_head: "strip_leading_slashes s \<noteq> CHR ''/'' # r"
proof
  assume a: "strip_leading_slashes s = CHR ''/'' # r"
  then have ne: "dropWhile (\<lambda>c. c = CHR ''/'') s \<noteq> []"
    by (simp add: strip_leading_slashes_def)
  from hd_dropWhile [OF ne] have "hd (dropWhile (\<lambda>c. c = CHR ''/'') s) \<noteq> CHR ''/''"
    by simp
  with a show False
    by (simp add: strip_leading_slashes_def)
qed

lemma array_map_Inr_iff:
  "array_map f xs = Inr ys \<longleftrightarrow> list_all2 (\<lambda>x y. f x = Inr y) xs ys"
proof (induction xs arbitrary: ys)
  case Nil
  then show ?case by auto
next
  case (Cons x xs)
  show ?case
  proof (cases ys)
    case Nil
    then show ?thesis by (simp split: sum.splits)
  next
    case ys: (Cons y ys')
    have IH: "list_all2 (\<lambda>x y. f x = Inr y) xs ys' \<longleftrightarrow> array_map f xs = Inr ys'"
      by (simp add: Cons.IH)
    show ?thesis
      by (cases "f x"; cases "array_map f xs") (auto simp: ys IH)
  qed
qed

subsection \<open>Objects with distinct keys\<close>









subsection \<open>Compiled groups\<close>

lemma filter_Boolean_set: "x \<in> set (filter_Boolean rs) \<longleftrightarrow> Some x \<in> set rs"
  by (induction rs rule: filter_Boolean.induct) auto

lemma filter_Boolean_defined:
  "filter_Boolean rs = map the (filter (\<lambda>r. r \<noteq> None) rs)"
  by (induction rs rule: filter_Boolean.induct) auto

lemma buildFilters_cases:
  assumes "list_all2 (\<lambda>child r. buildFilter conv h provider child = Inr r) children results"
  shows "buildFilters conv h provider children wt =
           Inr (case filter_Boolean results of
                  [] \<Rightarrow> None
                | [c] \<Rightarrow> Some c
                | c # c' # cs \<Rightarrow>
                    Some (CompositeFilter (case wt of wrapper_and \<Rightarrow> OP_AND | wrapper_or \<Rightarrow> OP_OR)
                            (filter_Boolean results)))"
proof -
  from assms have am: "array_map (buildFilter conv h provider) children = Inr results"
    by (simp add: array_map_Inr_iff)
  show ?thesis
  proof (cases "filter_Boolean results")
    case Nil
    with am show ?thesis by simp
  next
    case (Cons c cs)
    show ?thesis
    proof (cases cs)
      case Nil
      with am Cons show ?thesis by simp
    next
      case (Cons c' cs')
      with am \<open>filter_Boolean results = c # cs\<close> show ?thesis
        by (cases wt) (simp_all add: combineFilters_def)
    qed
  qed
qed

lemma buildFilter_no_redundant_composite:
  "(buildFilters conv h provider fs wt = Inr (Some f) \<longrightarrow> no_redundant_composite f)"
  "(buildFilter conv h provider node = Inr (Some f) \<longrightarrow> no_redundant_composite f)"
proof (induction conv h provider fs wt and conv h provider node arbitrary: f and f
       rule: buildFilters_buildFilter.induct)
  case (1 conv h provider filters wrapperType)
  show ?case
  proof
    assume run: "buildFilters conv h provider filters wrapperType = Inr (Some f)"
    then obtain results where am: "array_map (buildFilter conv h provider) filters = Inr results"
      by (auto split: sum.splits)
    have each: "no_redundant_composite g" if "g \<in> set (filter_Boolean results)" for g
    proof -
      from that have "Some g \<in> set results" by (simp add: filter_Boolean_set)
      then obtain i where i: "i < length results" "results ! i = Some g"
        by (auto simp: in_set_conv_nth)
      from am have l2: "list_all2 (\<lambda>x y. buildFilter conv h provider x = Inr y) filters results"
        by (simp add: array_map_Inr_iff)
      from l2 i have "buildFilter conv h provider (filters ! i) = Inr (Some g)"
        by (auto simp: list_all2_conv_all_nth)
      moreover from l2 i have "filters ! i \<in> set filters"
        by (auto simp: list_all2_conv_all_nth)
      ultimately show ?thesis using 1 by blast
    qed
    let ?built = "filter_Boolean results"
    show "no_redundant_composite f"
    proof (cases "length ?built = 0")
      case True
      then have "?built = []" by simp
      with run am show ?thesis by (simp add: Let_def)
    next
      case False
      note ne = this
      show ?thesis
      proof (cases "length ?built = 1")
        case True
        from True have ne': "?built \<noteq> []" by auto
        from run am ne' True have "f = ?built ! 0" by (simp add: Let_def)
        moreover from True have "?built ! 0 \<in> set ?built" by simp
        ultimately show ?thesis using each by blast
      next
        case False
        from ne have ne': "?built \<noteq> []" by auto
        from run am ne' False have f: "f = combineFilters wrapperType ?built" by (simp add: Let_def)
        from ne False have "2 \<le> length ?built" by arith
        then show ?thesis using each by (simp add: f combineFilters_def list_all_iff)
      qed
    qed
  qed
next
  case (2 conv h provider filterWrapperType filters)
  then show ?case by simp
next
  case (3 conv h provider fieldName v filterType)
  then show ?case by (auto split: sum.splits)
qed

subsection \<open>Document paths and references\<close>

lemma getDocumentPath_invalid:
  "docId = [] \<or> CHR ''/'' \<in> set docId \<Longrightarrow>
     getDocumentPath h docId = Inl (Error ''Document ids cannot be empty or contain slashes.'')"
  by (auto simp: getDocumentPath_def includes_slash_def)

lemma getDocumentPath_valid:
  "docId \<noteq> [] \<Longrightarrow> CHR ''/'' \<notin> set docId \<Longrightarrow>
     getDocumentPath h docId = Inr (collectionSegments h @ [docId])"
  by (simp add: getDocumentPath_def includes_slash_def)

lemma constructor_segments_nonempty:
  "new_FireworkersDataHelper p d = Inr h \<Longrightarrow> collectionSegments h \<noteq> []"
  by (auto simp: new_FireworkersDataHelper_def Let_def split: if_splits)

lemma buildDocumentReferencePath_bare:
  assumes "getDB h provider = Inr d" and "CHR ''/'' \<notin> set s" and "collectionSegments h \<noteq> []"
  shows "buildDocumentReferencePath h provider s =
           Inr (''projects/'' @ project_id d @ ''/databases/(default)/documents/''
                @ join ''/'' (collectionSegments h) @ ''/'' @ s)"
  using assms by (simp add: buildDocumentReferencePath_def includes_slash_def join_snoc)

lemma buildDocumentReferencePath_qualified:
  assumes "getDB h provider = Inr d" and "CHR ''/'' \<in> set s"
  shows "buildDocumentReferencePath h provider s =
           Inr (''projects/'' @ project_id d @ ''/databases/(default)/documents/''
                @ strip_leading_slashes s)"
  using assms by (simp add: buildDocumentReferencePath_def includes_slash_def)

lemma array_map_first_error:
  assumes "\<forall>x\<in>set xs. f x = Inl e \<or> (\<exists>y. f x = Inr y)" and "\<exists>x\<in>set xs. f x = Inl e"
  shows "array_map f xs = Inl e"
  using assms
proof (induction xs)
  case Nil
  then show ?case by simp
next
  case (Cons x xs)
  show ?case
  proof (cases "f x")
    case (Inl e')
    with Cons.prems have "e' = e" by auto
    with Inl show ?thesis by simp
  next
    case (Inr y)
    with Cons.prems have later: "\<exists>x\<in>set xs. f x = Inl e" by auto
    from Cons.prems have all: "\<forall>x\<in>set xs. f x = Inl e \<or> (\<exists>y. f x = Inr y)" by simp
    from Cons.IH [OF all later] Inr show ?thesis by simp
  qed
qed

lemma buildDocumentNameValue_string:
  assumes "getDB h provider = Inr d" and "s \<noteq> []"
  shows "\<exists>ref. buildDocumentReferencePath h provider s = Inr ref
            \<and> buildDocumentNameValue h provider (JStr s) = Inr (ReferenceValue ref)"
  using assms by (simp add: buildDocumentReferencePath_def Let_def)

lemma buildDocumentNameValue_empty_string:
  "buildDocumentNameValue h provider (JStr []) =
     Inl (Error ''Document id filters require a non-empty string value.'')"
  by simp

lemma buildDocumentNameValue_strings:
  assumes handle: "getDB h provider = Inr d" and ne: "[] \<notin> set ids"
  shows "\<exists>refs. list_all2 (\<lambda>docId ref. buildDocumentReferencePath h provider docId = Inr ref) ids refs
            \<and> buildDocumentNameValue h provider (JArr (map JStr ids)) =
                Inr (ArrayValue (map ReferenceValue refs))"
proof -
  have each: "\<exists>refs. list_all2 (\<lambda>docId ref. buildDocumentReferencePath h provider docId = Inr ref) ids refs
       \<and> array_map (buildDocumentNameValue h provider) (map JStr ids) = Inr (map ReferenceValue refs)"
    using ne
  proof (induction ids)
    case Nil
    then show ?case by simp
  next
    case (Cons a ids)
    then have a: "a \<noteq> []" and rest: "[] \<notin> set ids" by auto
    from buildDocumentNameValue_string [OF handle a] obtain ref
      where ref: "buildDocumentReferencePath h provider a = Inr ref"
        "buildDocumentNameValue h provider (JStr a) = Inr (ReferenceValue ref)" by blast
    from Cons.IH [OF rest] obtain refs
      where refs: "list_all2 (\<lambda>docId ref. buildDocumentReferencePath h provider docId = Inr ref) ids refs"
        "array_map (buildDocumentNameValue h provider) (map JStr ids) = Inr (map ReferenceValue refs)"
      by blast
    have l: "list_all2 (\<lambda>docId ref. buildDocumentReferencePath h provider docId = Inr ref)
               (a # ids) (ref # refs)"
      using ref(1) refs(1) by simp
    have m: "array_map (buildDocumentNameValue h provider) (map JStr (a # ids)) =
               Inr (map ReferenceValue (ref # refs))"
      using ref(2) refs(2) by simp
    from l m show ?case by blast
  qed
  then obtain refs
    where refs: "list_all2 (\<lambda>docId ref. buildDocumentReferencePath h provider docId = Inr ref) ids refs"
      "array_map (buildDocumentNameValue h provider) (map JStr ids) = Inr (map ReferenceValue refs)"
    by blast
  from refs(2) have "buildDocumentNameValue h provider (JArr (map JStr ids)) =
                Inr (ArrayValue (map ReferenceValue refs))" by simp
  with refs(1) show ?thesis by blast
qed

lemma buildDocumentNameValue_strings_with_empty:
  assumes handle: "getDB h provider = Inr d" and e: "[] \<in> set ids"
  shows "buildDocumentNameValue h provider (JArr (map JStr ids)) =
           Inl (Error ''Document id filters require a non-empty string value.'')"
proof -
  let ?e = "Error ''Document id filters require a non-empty string value.''"
  have all: "\<forall>x\<in>set (map JStr ids). buildDocumentNameValue h provider x = Inl ?e
                \<or> (\<exists>y. buildDocumentNameValue h provider x = Inr y)"
  proof
    fix x assume "x \<in> set (map JStr ids)"
    then obtain s where x: "x = JStr s" by auto
    show "buildDocumentNameValue h provider x = Inl ?e
                \<or> (\<exists>y. buildDocumentNameValue h provider x = Inr y)"
    proof (cases "s = []")
      case True
      with x show ?thesis by simp
    next
      case False
      from buildDocumentNameValue_string [OF handle False] x show ?thesis by blast
    qed
  qed
  from e have "JStr [] \<in> set (map JStr ids)" by (simp add: image_iff)
  then have ex: "\<exists>x\<in>set (map JStr ids). buildDocumentNameValue h provider x = Inl ?e"
    using buildDocumentNameValue_empty_string by blast
  from array_map_first_error [OF all ex] show ?thesis by simp
qed

lemma buildDocumentNameValue_strings_without_handle:
  assumes nohandle: "getDB h provider = Inl e" and ne: "ids \<noteq> []"
  shows "buildDocumentNameValue h provider (JArr (map JStr ids)) =
           (if hd ids = [] then Inl (Error ''Document id filters require a non-empty string value.'')
            else Inl e)"
proof -
  from ne obtain a rest where ids: "ids = a # rest" by (cases ids) auto
  show ?thesis
  proof (cases "a = []")
    case True
    then show ?thesis by (simp add: ids)
  next
    case False
    then have "buildDocumentNameValue h provider (JStr a) = Inl e"
      by (simp add: buildDocumentReferencePath_def Let_def nohandle)
    with False show ?thesis by (simp add: ids del: buildDocumentNameValue.simps(2))
  qed
qed

lemma buildDocumentNameValue_references_only:
  "buildDocumentNameValue h provider v = Inr w \<Longrightarrow> references_only w"
proof (induction h provider v arbitrary: w rule: buildDocumentNameValue.induct)
  case (1 h provider items)
  from "1.prems" obtain ws
    where am: "array_map (buildDocumentNameValue h provider) items = Inr ws"
      and w: "w = ArrayValue ws"
    by (auto split: sum.splits)
  from am have l2: "list_all2 (\<lambda>x y. buildDocumentNameValue h provider x = Inr y) items ws"
    by (simp add: array_map_Inr_iff)
  have "\<forall>y\<in>set ws. references_only y"
  proof
    fix y assume "y \<in> set ws"
    then obtain i where i: "i < length ws" "ws ! i = y"
      by (auto simp: in_set_conv_nth)
    from l2 i have "items ! i \<in> set items"
      by (auto simp: list_all2_conv_all_nth)
    moreover from l2 i have "buildDocumentNameValue h provider (items ! i) = Inr y"
      by (auto simp: list_all2_conv_all_nth)
    ultimately show "references_only y" using "1.IH" by blast
  qed
  then show ?case by (simp add: w list_all_iff)
next
  case (2 h provider s)
  then show ?case by (auto split: if_splits sum.splits)
qed simp_all

lemma buildDocumentNameValue_rejects:
  "v = JStr [] \<or> v = JUndefined \<or> v = JNull \<or> (\<exists>b. v = JBool b) \<or> (\<exists>n. v = JNum n)
     \<or> (\<exists>kind obj. v = JObj kind obj) \<Longrightarrow>
   buildDocumentNameValue h provider v =
     Inl (Error ''Document id filters require a non-empty string value.'')"
  by auto

subsection \<open>The query that \<open>getData\<close> compiles\<close>

lemma getData_closed_form:
  "getData conv h provider params =
     (case (case Option.bind params filters of
              None \<Rightarrow> Inr None
            | Some fs \<Rightarrow> buildFilters conv h provider fs wrapper_and) of
        Inl e \<Rightarrow> Inl e
      | Inr wh \<Rightarrow>
          (case getDB h provider of
             Inl e \<Rightarrow> Inl e
           | Inr d \<Rightarrow>
               Inr (QueryCall d
                 \<lparr> q_from = [collectionId h],
                   q_where = wh,
                   q_orderBy = (case Option.bind params sortBy of
                                  None \<Rightarrow> None
                                | Some s \<Rightarrow> Some [\<lparr> fieldPath = field s,
                                                     direction = (if ascending s then ASCENDING
                                                                  else DESCENDING) \<rparr>]),
                   q_limit = (case Option.bind params limit of
                                None \<Rightarrow> None
                              | Some n \<Rightarrow> if n = Finite 0 \<or> n = NaN then None else Some n) \<rparr>
                 (parentDocumentSegments h))))"
proof -
  have empty: "buildFilters conv h provider [] wrapper_and = Inr None" by simp
  define compiled where
    "compiled = (case Option.bind params filters of
                   None \<Rightarrow> Inr None
                 | Some fs \<Rightarrow> buildFilters conv h provider fs wrapper_and)"
  have c: "(case Option.bind params filters of
              None \<Rightarrow> Inr None
            | Some fs \<Rightarrow> if length fs \<noteq> 0 then buildFilters conv h provider fs wrapper_and
                         else Inr None) = compiled"
    unfolding compiled_def using empty
    by (cases "Option.bind params filters") (auto simp del: buildFilters.simps)
  show ?thesis
    unfolding getData_def c compiled_def [symmetric]
    by (cases compiled; cases "getDB h provider"; cases "Option.bind params sortBy";
        cases "Option.bind params limit")
       (auto simp: Let_def truthy_number_def split: option.splits)
qed

subsection \<open>Search parameters\<close>

lemma getAll_append: "getAll (ps @ qs) name = getAll ps name @ getAll qs name"
  by (simp add: getAll_def)

lemma getAll_searchParams_set_same: "getAll (searchParams_set ps name v) name = [v]"
proof (induction ps)
  case Nil
  then show ?case by (simp add: getAll_def)
next
  case (Cons p ps)
  obtain n x where p: "p = (n, x)" by (cases p)
  show ?case
  proof (cases "n = name")
    case True
    have "filter (\<lambda>x. (case x of (n', _) \<Rightarrow> n' \<noteq> name) \<and> (case x of (n, _) \<Rightarrow> n = name)) ps = []"
      by (auto simp: filter_empty_conv)
    with True show ?thesis by (simp add: p getAll_def)
  next
    case False
    with Cons show ?thesis by (simp add: p getAll_def)
  qed
qed

lemma getAll_searchParams_set_other:
  "other \<noteq> name \<Longrightarrow> getAll (searchParams_set ps name v) other = getAll ps other"
proof (induction ps)
  case Nil
  then show ?case by (simp add: getAll_def)
next
  case (Cons p ps)
  obtain n x where p: "p = (n, x)" by (cases p)
  show ?case
  proof (cases "n = name")
    case True
    have "filter (\<lambda>x. (case x of (n', _) \<Rightarrow> n' \<noteq> name) \<and> (case x of (n, _) \<Rightarrow> n = other)) ps
            = filter (\<lambda>(n, _). n = other) ps"
      using Cons.prems by (intro filter_cong) auto
    with True Cons.prems show ?thesis by (simp add: p getAll_def)
  next
    case False
    with Cons show ?thesis by (simp add: p getAll_def)
  qed
qed

lemma getAll_appended_keys_same: "getAll (map (\<lambda>key. (name, key)) keys) name = keys"
  by (induction keys) (simp_all add: getAll_def)

lemma getAll_appended_keys_other:
  "other \<noteq> name \<Longrightarrow> getAll (map (\<lambda>key. (name, key)) keys) other = []"
  by (induction keys) (simp_all add: getAll_def)

lemma foldl_searchParams_append:
  "foldl (\<lambda>e key. e \<lparr> searchParams := searchParams e @ [(name, key)] \<rparr>) e0 keys
     = e0 \<lparr> searchParams := searchParams e0 @ map (\<lambda>key. (name, key)) keys \<rparr>"
  by (induction keys arbitrary: e0) simp_all

lemma update_request:
  "update get_firestore_endpoint create_document_from_fields (Some d) paths fields_obj =
     Inr \<lparr> endpoint =
             (get_firestore_endpoint (project_id d) paths)
               \<lparr> searchParams :=
                   searchParams_set (searchParams (get_firestore_endpoint (project_id d) paths))
                     ''currentDocument.exists'' ''true''
                   @ map (\<lambda>key. (''updateMask.fieldPaths'', key)) (for_in_keys fields_obj) \<rparr>,
           http_method = ''PATCH'',
           body = create_document_from_fields fields_obj,
           headers = [(''Authorization'', ''Bearer '' @ jwt d)] \<rparr>"
  by (simp add: update_def Let_def searchParams_append_def foldl_searchParams_append)

section \<open>Group compilation\<close>

text \<open>
  Claim C1. Let every child of a group, or every filter of the list given to
  \<open>getData\<close>, compile, to a filter or to nothing; the effective children are the
  results that are filters, in the order of the children. When all of them compile
  to nothing the group contributes no filter, and \<open>getData\<close> sends a query without \<open>where\<close>;
  when exactly one compiles to a filter the group compiles to that filter, with no
  composite around it; when two or more do, the group compiles to the composite
  filter tagged \<open>AND\<close> for the and-combinator and \<open>OR\<close> for the or-combinator, whose
  members are the compiled children in order. A wrapper node compiles as its list of
  filters under its own combinator, the list of \<open>getData\<close> under the and-combinator,
  and no compiled filter holds a composite of fewer than two members.
\<close>

theorem group_compilation:
  assumes children:
    "list_all2 (\<lambda>child r. buildFilter conv h provider child = Inr r) children results"
  defines "effective \<equiv> map the (filter (\<lambda>r. r \<noteq> None) results)"
  shows "(effective = [] \<longrightarrow>
            buildFilters conv h provider children wt = Inr None)
       \<and> (\<forall>c. effective = [c] \<longrightarrow>
            buildFilters conv h provider children wt = Inr (Some c))
       \<and> (2 \<le> length effective \<longrightarrow>
            buildFilters conv h provider children wt =
              Inr (Some (CompositeFilter
                           (case wt of wrapper_and \<Rightarrow> OP_AND | wrapper_or \<Rightarrow> OP_OR)
                           effective)))
       \<and> buildFilter conv h provider (DataFilterWrapper wt children) =
           buildFilters conv h provider children wt
       \<and> (\<forall>f. buildFilters conv h provider children wt = Inr (Some f) \<longrightarrow>
            no_redundant_composite f)
       \<and> (\<forall>d. getDB h provider = Inr d \<longrightarrow>
            (\<exists>q. getData conv h provider
                    (Some \<lparr> filters = Some children, limit = given_limit, sortBy = given_sort \<rparr>) =
                    Inr (QueryCall d q (parentDocumentSegments h))
                \<and> buildFilters conv h provider children wrapper_and = Inr (q_where q)))"
proof -
  have eff: "filter_Boolean results = effective"
    by (simp only: effective_def filter_Boolean_defined)
  note bc = buildFilters_cases [OF children, unfolded eff]
  have p1: "effective = [] \<longrightarrow>
            buildFilters conv h provider children wt = Inr None"
    by (simp add: bc del: buildFilters.simps)
  have p2: "\<forall>c. effective = [c] \<longrightarrow>
            buildFilters conv h provider children wt = Inr (Some c)"
    by (simp add: bc del: buildFilters.simps)
  have p3: "2 \<le> length effective \<longrightarrow>
            buildFilters conv h provider children wt =
              Inr (Some (CompositeFilter
                           (case wt of wrapper_and \<Rightarrow> OP_AND | wrapper_or \<Rightarrow> OP_OR)
                           effective))"
  proof
    assume "2 \<le> length effective"
    then obtain c c' cs where "effective = c # c' # cs"
      by (cases effective; cases "tl effective") auto
    then show "buildFilters conv h provider children wt =
              Inr (Some (CompositeFilter
                           (case wt of wrapper_and \<Rightarrow> OP_AND | wrapper_or \<Rightarrow> OP_OR)
                           effective))"
      by (simp add: bc del: buildFilters.simps)
  qed
  have p4: "buildFilter conv h provider (DataFilterWrapper wt children) =
           buildFilters conv h provider children wt"
    by (simp del: buildFilters.simps)
  have p5: "\<forall>f. buildFilters conv h provider children wt = Inr (Some f) \<longrightarrow>
            no_redundant_composite f"
    using buildFilter_no_redundant_composite(1) by blast
  have p6: "\<forall>d. getDB h provider = Inr d \<longrightarrow>
            (\<exists>q. getData conv h provider
                    (Some \<lparr> filters = Some children, limit = given_limit, sortBy = given_sort \<rparr>) =
                    Inr (QueryCall d q (parentDocumentSegments h))
                \<and> buildFilters conv h provider children wrapper_and = Inr (q_where q))"
  proof (intro allI impI)
    fix d assume handle: "getDB h provider = Inr d"
    obtain wh where wh: "buildFilters conv h provider children wrapper_and = Inr wh"
      using bc [of wrapper_and] by blast
    let ?q = "\<lparr> q_from = [collectionId h], q_where = wh,
                 q_orderBy = (case given_sort of
                                None \<Rightarrow> None
                              | Some s \<Rightarrow> Some [\<lparr> fieldPath = field s,
                                                   direction = (if ascending s then ASCENDING
                                                                else DESCENDING) \<rparr>]),
                 q_limit = (case given_limit of
                              None \<Rightarrow> None
                            | Some n \<Rightarrow> if n = Finite 0 \<or> n = NaN then None else Some n) \<rparr>"
    have "getData conv h provider
            (Some \<lparr> filters = Some children, limit = given_limit, sortBy = given_sort \<rparr>) =
          Inr (QueryCall d ?q (parentDocumentSegments h))"
      by (simp add: getData_closed_form wh handle del: buildFilters.simps)
    moreover have "buildFilters conv h provider children wrapper_and = Inr (q_where ?q)"
      by (simp add: wh del: buildFilters.simps)
    ultimately show "\<exists>q. getData conv h provider
                    (Some \<lparr> filters = Some children, limit = given_limit, sortBy = given_sort \<rparr>) =
                    Inr (QueryCall d q (parentDocumentSegments h))
                \<and> buildFilters conv h provider children wrapper_and = Inr (q_where q)"
      by blast
  qed
  from p1 p2 p3 p4 p5 p6 show ?thesis by blast
qed

theorem group_compilation_witness:
  "buildFilters example_codec todos_helper None
      [DataFilter ''status'' (JStr ''open'') isEqualTo,
       DataFilterWrapper wrapper_and [],
       DataFilter ''priority'' (JStr ''high'') isEqualTo] wrapper_or =
     Inr (Some (CompositeFilter OP_OR
            [FieldFilter ''status'' EQUAL (StringValue ''open''),
             FieldFilter ''priority'' EQUAL (StringValue ''high'')]))
   \<and> buildFilters example_codec todos_helper None
        [DataFilterWrapper wrapper_or [], DataFilter ''status'' (JStr ''open'') isEqualTo]
        wrapper_and =
       Inr (Some (FieldFilter ''status'' EQUAL (StringValue ''open'')))
   \<and> buildFilters example_codec todos_helper None
        [DataFilterWrapper wrapper_or [], DataFilterWrapper wrapper_and []] wrapper_and =
       Inr None"
  using group_compilation [where conv = example_codec and h = todos_helper and provider = None
          and children = "[DataFilter ''status'' (JStr ''open'') isEqualTo,
                           DataFilterWrapper wrapper_and [],
                           DataFilter ''priority'' (JStr ''high'') isEqualTo]"
          and results = "[Some (FieldFilter ''status'' EQUAL (StringValue ''open'')), None,
                          Some (FieldFilter ''priority'' EQUAL (StringValue ''high''))]"
          and wt = wrapper_or]
        group_compilation [where conv = example_codec and h = todos_helper and provider = None
          and children = "[DataFilterWrapper wrapper_or [],
                           DataFilter ''status'' (JStr ''open'') isEqualTo]"
          and results = "[None, Some (FieldFilter ''status'' EQUAL (StringValue ''open''))]"
          and wt = wrapper_and]
        group_compilation [where conv = example_codec and h = todos_helper and provider = None
          and children = "[DataFilterWrapper wrapper_or [], DataFilterWrapper wrapper_and []]"
          and results = "[None, None]"
          and wt = wrapper_and]
  by (simp add: buildFieldValue_def DOCUMENT_ID_FIELD_def example_codec_def combineFilters_def)

section \<open>Document references\<close>

text \<open>
  Claim C2. On a helper made by the constructor and with a session handle at hand, a
  non-empty string operand of a document-identity filter becomes a reference: without
  a slash in it, the canonical prefix with the project id, the collection segments
  joined by slashes, a slash and the id; with a slash in it, the canonical prefix
  followed by the string without its leading slashes.
\<close>

theorem document_reference_path:
  assumes built: "new_FireworkersDataHelper p dbo = Inr h"
      and handle: "getDB h provider = Inr d"
      and nonempty: "s \<noteq> []"
  shows "(CHR ''/'' \<notin> set s \<longrightarrow>
            buildDocumentNameValue h provider (JStr s) =
              Inr (ReferenceValue (''projects/'' @ project_id d @ ''/databases/(default)/documents/''
                                   @ join ''/'' (collectionSegments h) @ ''/'' @ s)))
       \<and> (CHR ''/'' \<in> set s \<longrightarrow>
            (\<exists>n rest. s = replicate n CHR ''/'' @ rest \<and> (\<forall>r. rest \<noteq> CHR ''/'' # r)
               \<and> buildDocumentNameValue h provider (JStr s) =
                   Inr (ReferenceValue (''projects/'' @ project_id d
                                        @ ''/databases/(default)/documents/'' @ rest))))
       \<and> buildFieldValue conv h provider DOCUMENT_ID_FIELD (JStr s) =
           buildDocumentNameValue h provider (JStr s)"
proof (intro conjI impI)
  assume bare: "CHR ''/'' \<notin> set s"
  from built have ne: "collectionSegments h \<noteq> []" by (rule constructor_segments_nonempty)
  show "buildDocumentNameValue h provider (JStr s) =
          Inr (ReferenceValue (''projects/'' @ project_id d @ ''/databases/(default)/documents/''
                               @ join ''/'' (collectionSegments h) @ ''/'' @ s))"
    using nonempty by (simp add: buildDocumentReferencePath_bare [OF handle bare ne])
next
  assume q: "CHR ''/'' \<in> set s"
  obtain n where n: "s = replicate n CHR ''/'' @ strip_leading_slashes s"
    using strip_leading_slashes_decomp by blast
  have hdr: "\<forall>r. strip_leading_slashes s \<noteq> CHR ''/'' # r"
    by (simp add: strip_leading_slashes_head)
  have run: "buildDocumentNameValue h provider (JStr s) =
          Inr (ReferenceValue (''projects/'' @ project_id d @ ''/databases/(default)/documents/''
                               @ strip_leading_slashes s))"
    using nonempty by (simp add: buildDocumentReferencePath_qualified [OF handle q])
  from n hdr run
  show "\<exists>n rest. s = replicate n CHR ''/'' @ rest \<and> (\<forall>r. rest \<noteq> CHR ''/'' # r)
               \<and> buildDocumentNameValue h provider (JStr s) =
                   Inr (ReferenceValue (''projects/'' @ project_id d
                                        @ ''/databases/(default)/documents/'' @ rest))"
    by blast
next
  show "buildFieldValue conv h provider DOCUMENT_ID_FIELD (JStr s) =
           buildDocumentNameValue h provider (JStr s)"
    by (simp add: buildFieldValue_def)
qed

theorem document_reference_path_witness:
  "buildDocumentNameValue todos_helper None (JStr ''doc-99'') =
     Inr (ReferenceValue ''projects/demo-project/databases/(default)/documents/todos/doc-99'')
   \<and> buildDocumentNameValue user_todos_helper None (JStr ''doc-99'') =
     Inr (ReferenceValue
       ''projects/demo-project/databases/(default)/documents/users/user-1/todos/doc-99'')
   \<and> (\<exists>n rest. ''//todos/doc-99'' = replicate n CHR ''/'' @ rest \<and> (\<forall>r. rest \<noteq> CHR ''/'' # r)
         \<and> buildDocumentNameValue todos_helper None (JStr ''//todos/doc-99'') =
             Inr (ReferenceValue (''projects/demo-project/databases/(default)/documents/'' @ rest)))"
  using document_reference_path [where p = "PathString ''todos''" and dbo = "Some demo_db"
          and h = todos_helper and provider = None and d = demo_db and s = "''doc-99''"]
        document_reference_path [where p = "PathString ''users/user-1/todos''" and dbo = "Some demo_db"
          and h = user_todos_helper and provider = None and d = demo_db and s = "''doc-99''"]
        document_reference_path [where p = "PathString ''todos''" and dbo = "Some demo_db"
          and h = todos_helper and provider = None and d = demo_db and s = "''//todos/doc-99''"]
  by (simp add: new_FireworkersDataHelper_def normalizedPath_def todos_helper_def
        user_todos_helper_def getDB_def demo_db_def)

section \<open>Documents by id\<close>

text \<open>
  Claim C3, as stated, fails: ten ids of which one is the empty string pass the
  ceiling and are then rejected by the conversion of the ids.
\<close>

theorem getDocsByIds_ten_ids_counterexample:
  "length ten_ids_one_empty = 10
   \<and> getDocsByIds todos_helper None ten_ids_one_empty =
       Inl (Error ''Document id filters require a non-empty string value.'')"
  by (simp add: ten_ids_one_empty_def getDocsByIds_def MAX_IN_FILTER_VALUES_def todos_helper_def
        buildDocumentReferencePath_def includes_slash_def getDB_def demo_db_def)

text \<open>
  Claim C3, amended. \<open>getDocsByIds\<close> with more than ten ids throws the "maximum of 10
  ids" error and makes no call. With one to ten ids, none of them empty, and a session
  handle at hand, it makes the one \<open>query\<close> call whose filter is \<open>IN\<close> on
  \<open>__name__\<close> with the references of the ids, in order. With a session handle at hand
  and at most ten ids of which one is empty it throws the "non-empty string" error
  and makes no call. With one to ten ids and no session handle it makes no call
  either: it throws the "non-empty string" error when the first id is empty, and
  the error of \<open>getDB()\<close> otherwise.
\<close>

theorem getDocsByIds_bounded:
  "(10 < length ids \<longrightarrow>
      getDocsByIds h provider ids =
        Inl (Error ''Firestore supports a maximum of 10 ids per request.''))
 \<and> (1 \<le> length ids \<and> length ids \<le> 10 \<and> [] \<notin> set ids \<and> getDB h provider = Inr d \<longrightarrow>
      (\<exists>refs. list_all2 (\<lambda>docId ref. buildDocumentReferencePath h provider docId = Inr ref) ids refs
         \<and> getDocsByIds h provider ids =
             Inr (Some (QueryCall d
                    \<lparr> q_from = [collectionId h],
                      q_where = Some (FieldFilter ''__name__'' OP_IN
                                        (ArrayValue (map ReferenceValue refs))),
                      q_orderBy = None, q_limit = None \<rparr>
                    (parentDocumentSegments h)))))
 \<and> (length ids \<le> 10 \<and> [] \<in> set ids \<and> getDB h provider = Inr d \<longrightarrow>
      getDocsByIds h provider ids =
        Inl (Error ''Document id filters require a non-empty string value.''))
 \<and> (1 \<le> length ids \<and> length ids \<le> 10 \<and> getDB h provider = Inl e \<longrightarrow>
      getDocsByIds h provider ids =
        (if hd ids = [] then Inl (Error ''Document id filters require a non-empty string value.'')
         else Inl e))"
proof (intro conjI impI)
  assume "10 < length ids"
  then show "getDocsByIds h provider ids =
        Inl (Error ''Firestore supports a maximum of 10 ids per request.'')"
    by (auto simp: getDocsByIds_def MAX_IN_FILTER_VALUES_def)
next
  assume a: "1 \<le> length ids \<and> length ids \<le> 10 \<and> [] \<notin> set ids \<and> getDB h provider = Inr d"
  then have handle: "getDB h provider = Inr d" and ne: "[] \<notin> set ids" by auto
  from buildDocumentNameValue_strings [OF handle ne] obtain refs
    where refs: "list_all2 (\<lambda>docId ref. buildDocumentReferencePath h provider docId = Inr ref) ids refs"
      "buildDocumentNameValue h provider (JArr (map JStr ids)) =
                Inr (ArrayValue (map ReferenceValue refs))" by blast
  from a have len: "ids \<noteq> []" "\<not> MAX_IN_FILTER_VALUES < length ids"
    by (auto simp: MAX_IN_FILTER_VALUES_def)
  have "getDocsByIds h provider ids =
             Inr (Some (QueryCall d
                    \<lparr> q_from = [collectionId h],
                      q_where = Some (FieldFilter ''__name__'' OP_IN
                                        (ArrayValue (map ReferenceValue refs))),
                      q_orderBy = None, q_limit = None \<rparr>
                    (parentDocumentSegments h)))"
    using len
    by (simp add: getDocsByIds_def refs(2) handle DOCUMENT_ID_FIELD_def
          del: buildDocumentNameValue.simps)
  with refs(1) show "\<exists>refs. list_all2 (\<lambda>docId ref. buildDocumentReferencePath h provider docId = Inr ref) ids refs
         \<and> getDocsByIds h provider ids =
             Inr (Some (QueryCall d
                    \<lparr> q_from = [collectionId h],
                      q_where = Some (FieldFilter ''__name__'' OP_IN
                                        (ArrayValue (map ReferenceValue refs))),
                      q_orderBy = None, q_limit = None \<rparr>
                    (parentDocumentSegments h)))" by blast
next
  assume a: "length ids \<le> 10 \<and> [] \<in> set ids \<and> getDB h provider = Inr d"
  then have handle: "getDB h provider = Inr d" and e: "[] \<in> set ids" by auto
  from a have len: "ids \<noteq> []" "\<not> MAX_IN_FILTER_VALUES < length ids"
    by (auto simp: MAX_IN_FILTER_VALUES_def)
  show "getDocsByIds h provider ids =
        Inl (Error ''Document id filters require a non-empty string value.'')"
    using len
    by (simp add: getDocsByIds_def buildDocumentNameValue_strings_with_empty [OF handle e]
          del: buildDocumentNameValue.simps)
next
  assume a: "1 \<le> length ids \<and> length ids \<le> 10 \<and> getDB h provider = Inl e"
  then have nohandle: "getDB h provider = Inl e" by simp
  from a have len: "ids \<noteq> []" "\<not> MAX_IN_FILTER_VALUES < length ids"
    by (auto simp: MAX_IN_FILTER_VALUES_def)
  show "getDocsByIds h provider ids =
        (if hd ids = [] then Inl (Error ''Document id filters require a non-empty string value.'')
         else Inl e)"
    using len
    by (simp add: getDocsByIds_def
          buildDocumentNameValue_strings_without_handle [OF nohandle len(1)]
          del: buildDocumentNameValue.simps)
qed


theorem getDocsByIds_bounded_witness:
  "getDocsByIds todos_helper None (''doc-10'' # ten_ids) =
     Inl (Error ''Firestore supports a maximum of 10 ids per request.'')
   \<and> getDocsByIds todos_helper None ten_ids =
       Inr (Some (QueryCall demo_db
              \<lparr> q_from = [''todos''],
                q_where = Some (FieldFilter ''__name__'' OP_IN
                  (ArrayValue (map (\<lambda>docId. ReferenceValue
                     (''projects/demo-project/databases/(default)/documents/todos/'' @ docId))
                     ten_ids))),
                q_orderBy = None, q_limit = None \<rparr> []))
   \<and> getDocsByIds todos_helper None [''doc-1'', []] =
       Inl (Error ''Document id filters require a non-empty string value.'')
   \<and> getDocsByIds todos_helper_without_db None [''doc-1'', []] =
       Inl (Error ''DBProvider has not been initialized. Call DBProvider.getInstance().initialize() first.'')
   \<and> getDocsByIds todos_helper_without_db None [[], ''doc-1''] =
       Inl (Error ''Document id filters require a non-empty string value.'')"
  using getDocsByIds_bounded [where ids = "''doc-10'' # ten_ids" and h = todos_helper
          and provider = None and d = demo_db]
        getDocsByIds_bounded [where ids = ten_ids and h = todos_helper
          and provider = None and d = demo_db]
        getDocsByIds_bounded [where ids = "[''doc-1'', []]" and h = todos_helper
          and provider = None and d = demo_db]
        getDocsByIds_bounded [where ids = "[''doc-1'', []]" and h = todos_helper_without_db
          and provider = None
          and e = "Error ''DBProvider has not been initialized. Call DBProvider.getInstance().initialize() first.''"]
        getDocsByIds_bounded [where ids = "[[], ''doc-1'']" and h = todos_helper_without_db
          and provider = None
          and e = "Error ''DBProvider has not been initialized. Call DBProvider.getInstance().initialize() first.''"]
  by (simp add: ten_ids_def todos_helper_def todos_helper_without_db_def getDB_def
        DBProvider_getDB_def buildDocumentReferencePath_def includes_slash_def demo_db_def
        list_all2_Cons1)

section \<open>Operands of document-identity filters\<close>

text \<open>
  Claim C4, as stated, fails: the empty string is a single string and is rejected
  instead of becoming a reference, and an array inside the array becomes a nested
  \<open>arrayValue\<close>, not a \<open>referenceValue\<close>.
\<close>

theorem document_identity_operand_counterexample:
  "buildFieldValue example_codec todos_helper None DOCUMENT_ID_FIELD (JStr '''') =
     Inl (Error ''Document id filters require a non-empty string value.'')
   \<and> buildFieldValue example_codec todos_helper None DOCUMENT_ID_FIELD
        (JArr [JArr [JStr ''doc-1'']]) =
       Inr (ArrayValue [ArrayValue [ReferenceValue
              ''projects/demo-project/databases/(default)/documents/todos/doc-1'']])"
  by (simp add: buildFieldValue_def todos_helper_def buildDocumentReferencePath_def
        includes_slash_def getDB_def demo_db_def)

text \<open>
  Claim C4, amended. The operand of a leaf whose field name is \<open>__name__\<close> never reaches
  the value codec (the result is the same for any two codecs), and a result, when
  there is one, is made of references only. With a session handle at hand a non-empty
  string becomes one \<open>referenceValue\<close> and an array of non-empty strings an
  \<open>arrayValue\<close> of their \<open>referenceValue\<close>s, in order; in general an array becomes the
  \<open>arrayValue\<close> of the conversions of its elements. The empty string and every value
  that is neither a string nor an array are rejected with the "non-empty string"
  error. Under any other field name the operand is sanitized and handed to the codec.
\<close>

theorem document_identity_operand:
  "buildFieldValue conv h provider DOCUMENT_ID_FIELD v =
     buildFieldValue conv' h provider DOCUMENT_ID_FIELD v
 \<and> (\<forall>w. buildFieldValue conv h provider DOCUMENT_ID_FIELD v = Inr w \<longrightarrow> references_only w)
 \<and> (getDB h provider = Inr d \<and> s \<noteq> [] \<longrightarrow>
      (\<exists>ref. buildDocumentReferencePath h provider s = Inr ref
         \<and> buildFieldValue conv h provider DOCUMENT_ID_FIELD (JStr s) = Inr (ReferenceValue ref)))
 \<and> (getDB h provider = Inr d \<and> [] \<notin> set ids \<longrightarrow>
      (\<exists>refs. list_all2 (\<lambda>docId ref. buildDocumentReferencePath h provider docId = Inr ref) ids refs
         \<and> buildFieldValue conv h provider DOCUMENT_ID_FIELD (JArr (map JStr ids)) =
             Inr (ArrayValue (map ReferenceValue refs))))
 \<and> (\<forall>items w. buildFieldValue conv h provider DOCUMENT_ID_FIELD (JArr items) = Inr w \<longrightarrow>
      (\<exists>ws. w = ArrayValue ws
         \<and> list_all2 (\<lambda>item w'. buildFieldValue conv h provider DOCUMENT_ID_FIELD item = Inr w')
              items ws))
 \<and> (v = JStr [] \<or> v = JUndefined \<or> v = JNull \<or> (\<exists>b. v = JBool b) \<or> (\<exists>n. v = JNum n)
       \<or> (\<exists>kind obj. v = JObj kind obj) \<longrightarrow>
      buildFieldValue conv h provider DOCUMENT_ID_FIELD v =
        Inl (Error ''Document id filters require a non-empty string value.''))
 \<and> (fieldName \<noteq> DOCUMENT_ID_FIELD \<longrightarrow>
      buildFieldValue conv h provider fieldName v = conv (replaceUndefinedWithNull v))"
proof -
  have name: "\<And>c x. buildFieldValue c h provider DOCUMENT_ID_FIELD x = buildDocumentNameValue h provider x"
    by (simp add: buildFieldValue_def)
  have p1: "buildFieldValue conv h provider DOCUMENT_ID_FIELD v =
     buildFieldValue conv' h provider DOCUMENT_ID_FIELD v"
    by (simp only: name)
  have p2: "\<forall>w. buildFieldValue conv h provider DOCUMENT_ID_FIELD v = Inr w \<longrightarrow> references_only w"
    unfolding name using buildDocumentNameValue_references_only by blast
  have p3: "getDB h provider = Inr d \<and> s \<noteq> [] \<longrightarrow>
      (\<exists>ref. buildDocumentReferencePath h provider s = Inr ref
         \<and> buildFieldValue conv h provider DOCUMENT_ID_FIELD (JStr s) = Inr (ReferenceValue ref))"
    unfolding name using buildDocumentNameValue_string by blast
  have p4: "getDB h provider = Inr d \<and> [] \<notin> set ids \<longrightarrow>
      (\<exists>refs. list_all2 (\<lambda>docId ref. buildDocumentReferencePath h provider docId = Inr ref) ids refs
         \<and> buildFieldValue conv h provider DOCUMENT_ID_FIELD (JArr (map JStr ids)) =
             Inr (ArrayValue (map ReferenceValue refs)))"
    unfolding name using buildDocumentNameValue_strings by blast
  have p5: "\<forall>items w. buildFieldValue conv h provider DOCUMENT_ID_FIELD (JArr items) = Inr w \<longrightarrow>
      (\<exists>ws. w = ArrayValue ws
         \<and> list_all2 (\<lambda>item w'. buildFieldValue conv h provider DOCUMENT_ID_FIELD item = Inr w')
              items ws)"
    unfolding name by (auto simp: array_map_Inr_iff split: sum.splits)
  have p6: "v = JStr [] \<or> v = JUndefined \<or> v = JNull \<or> (\<exists>b. v = JBool b) \<or> (\<exists>n. v = JNum n)
       \<or> (\<exists>kind obj. v = JObj kind obj) \<longrightarrow>
      buildFieldValue conv h provider DOCUMENT_ID_FIELD v =
        Inl (Error ''Document id filters require a non-empty string value.'')"
    unfolding name using buildDocumentNameValue_rejects by blast
  have p7: "fieldName \<noteq> DOCUMENT_ID_FIELD \<longrightarrow>
      buildFieldValue conv h provider fieldName v = conv (replaceUndefinedWithNull v)"
    by (simp add: buildFieldValue_def)
  from p1 p2 p3 p4 p5 p6 p7 show ?thesis by blast
qed

theorem document_identity_operand_witness:
  "buildFieldValue example_codec todos_helper None DOCUMENT_ID_FIELD (JStr ''doc-1'') =
     Inr (ReferenceValue ''projects/demo-project/databases/(default)/documents/todos/doc-1'')
   \<and> buildFieldValue example_codec todos_helper None DOCUMENT_ID_FIELD
        (JArr [JStr ''doc-1'', JStr ''doc-2'']) =
       Inr (ArrayValue
         [ReferenceValue ''projects/demo-project/databases/(default)/documents/todos/doc-1'',
          ReferenceValue ''projects/demo-project/databases/(default)/documents/todos/doc-2''])
   \<and> buildFieldValue example_codec todos_helper None DOCUMENT_ID_FIELD (JNum (Finite 5)) =
       Inl (Error ''Document id filters require a non-empty string value.'')
   \<and> buildFieldValue example_codec todos_helper None ''status'' (JArr [JStr ''open'', JUndefined]) =
       Inr (ArrayValue [StringValue ''open'', NullValue])"
  using document_identity_operand [where conv = example_codec and conv' = example_codec
          and h = todos_helper and provider = None and d = demo_db and s = "''doc-1''"
          and ids = "[''doc-1'', ''doc-2'']" and v = "JNum (Finite 5)" and fieldName = "''status''"]
        document_identity_operand [where conv = example_codec and conv' = example_codec
          and h = todos_helper and provider = None and d = demo_db and s = "''doc-1''"
          and ids = "[''doc-1'', ''doc-2'']" and v = "JArr [JStr ''open'', JUndefined]"
          and fieldName = "''status''"]
  by (simp add: todos_helper_def getDB_def demo_db_def buildDocumentReferencePath_def
        includes_slash_def DOCUMENT_ID_FIELD_def example_codec_def list_all2_Cons1)

section \<open>The structured query of \<open>getData\<close>\<close>

text \<open>
  Claim C5, as stated, fails: \<open>if (params?.limit)\<close> tests the truthiness of the number,
  so a negative limit is copied into the query.
\<close>

theorem getData_negative_limit_counterexample:
  "getData example_codec todos_helper None
      (Some \<lparr> filters = None, limit = Some (Finite (- 1)), sortBy = None \<rparr>) =
     Inr (QueryCall demo_db
            \<lparr> q_from = [''todos''], q_where = None, q_orderBy = None,
              q_limit = Some (Finite (- 1)) \<rparr> [])"
  by (simp add: getData_def todos_helper_def getDB_def truthy_number_def)

text \<open>
  Claim C5, amended. \<open>getData\<close> throws what the compilation of the filters or
  \<open>getDB()\<close> throws, and otherwise makes one \<open>query\<close> call, under the parent document
  segments, with the query in which \<open>from\<close> is the bound collection identifier;
  \<open>where\<close> is the compiled list of filters, absent when no filters are given or when
  they compile to nothing (as the empty list does); \<open>orderBy\<close>, when \<open>sortBy\<close> is given,
  is the single entry with its field and \<open>ASCENDING\<close> for a true flag, \<open>DESCENDING\<close>
  otherwise; and \<open>limit\<close> is the given limit when that is neither zero nor NaN, a
  negative one included, and is absent otherwise.
\<close>

theorem getData_structured_query:
  "getData conv h provider params =
     (case (case Option.bind params filters of
              None \<Rightarrow> Inr None
            | Some fs \<Rightarrow> buildFilters conv h provider fs wrapper_and) of
        Inl e \<Rightarrow> Inl e
      | Inr wh \<Rightarrow>
          (case getDB h provider of
             Inl e \<Rightarrow> Inl e
           | Inr d \<Rightarrow>
               Inr (QueryCall d
                 \<lparr> q_from = [collectionId h],
                   q_where = wh,
                   q_orderBy = (case Option.bind params sortBy of
                                  None \<Rightarrow> None
                                | Some s \<Rightarrow> Some [\<lparr> fieldPath = field s,
                                                     direction = (if ascending s then ASCENDING
                                                                  else DESCENDING) \<rparr>]),
                   q_limit = (case Option.bind params limit of
                                None \<Rightarrow> None
                              | Some n \<Rightarrow> if n = Finite 0 \<or> n = NaN then None else Some n) \<rparr>
                 (parentDocumentSegments h))))
   \<and> buildFilters conv h provider [] wrapper_and = Inr None"
proof
  show "getData conv h provider params =
     (case (case Option.bind params filters of
              None \<Rightarrow> Inr None
            | Some fs \<Rightarrow> buildFilters conv h provider fs wrapper_and) of
        Inl e \<Rightarrow> Inl e
      | Inr wh \<Rightarrow>
          (case getDB h provider of
             Inl e \<Rightarrow> Inl e
           | Inr d \<Rightarrow>
               Inr (QueryCall d
                 \<lparr> q_from = [collectionId h],
                   q_where = wh,
                   q_orderBy = (case Option.bind params sortBy of
                                  None \<Rightarrow> None
                                | Some s \<Rightarrow> Some [\<lparr> fieldPath = field s,
                                                     direction = (if ascending s then ASCENDING
                                                                  else DESCENDING) \<rparr>]),
                   q_limit = (case Option.bind params limit of
                                None \<Rightarrow> None
                              | Some n \<Rightarrow> if n = Finite 0 \<or> n = NaN then None else Some n) \<rparr>
                 (parentDocumentSegments h))))"
    by (rule getData_closed_form)
  show "buildFilters conv h provider [] wrapper_and = Inr None"
    by simp
qed

theorem getData_structured_query_witness:
  "getData example_codec user_todos_helper None
      (Some \<lparr> filters = Some [DataFilterWrapper wrapper_or
                  [DataFilter ''status'' (JStr ''open'') isEqualTo,
                   DataFilter ''priority'' (JStr ''high'') isEqualTo]],
               limit = Some (Finite 5),
               sortBy = Some \<lparr> field = ''title'', ascending = False \<rparr> \<rparr>) =
     Inr (QueryCall demo_db
            \<lparr> q_from = [''todos''],
              q_where = Some (CompositeFilter OP_OR
                          [FieldFilter ''status'' EQUAL (StringValue ''open''),
                           FieldFilter ''priority'' EQUAL (StringValue ''high'')]),
              q_orderBy = Some [\<lparr> fieldPath = ''title'', direction = DESCENDING \<rparr>],
              q_limit = Some (Finite 5) \<rparr>
            [''users'', ''user-1''])
   \<and> getData example_codec todos_helper None
        (Some \<lparr> filters = Some [], limit = Some (Finite 0),
                 sortBy = Some \<lparr> field = ''title'', ascending = True \<rparr> \<rparr>) =
       Inr (QueryCall demo_db
              \<lparr> q_from = [''todos''], q_where = None,
                q_orderBy = Some [\<lparr> fieldPath = ''title'', direction = ASCENDING \<rparr>],
                q_limit = None \<rparr> [])
   \<and> getData example_codec todos_helper None None =
       Inr (QueryCall demo_db
              \<lparr> q_from = [''todos''], q_where = None, q_orderBy = None, q_limit = None \<rparr> [])"
  using getData_structured_query [where conv = example_codec and h = user_todos_helper
          and provider = None
          and params = "Some \<lparr> filters = Some [DataFilterWrapper wrapper_or
                  [DataFilter ''status'' (JStr ''open'') isEqualTo,
                   DataFilter ''priority'' (JStr ''high'') isEqualTo]],
               limit = Some (Finite 5),
               sortBy = Some \<lparr> field = ''title'', ascending = False \<rparr> \<rparr>"]
        getData_structured_query [where conv = example_codec and h = todos_helper
          and provider = None
          and params = "Some \<lparr> filters = Some [], limit = Some (Finite 0),
                 sortBy = Some \<lparr> field = ''title'', ascending = True \<rparr> \<rparr>"]
        getData_structured_query [where conv = example_codec and h = todos_helper
          and provider = None and params = None]
  by (simp add: user_todos_helper_def todos_helper_def getDB_def buildFieldValue_def
        DOCUMENT_ID_FIELD_def example_codec_def combineFilters_def)

section \<open>Sanitization\<close>




section \<open>Path validation at construction\<close>



section \<open>Document ids\<close>

text \<open>
  Claim C8. \<open>addData\<close>, \<open>updateField\<close> and \<open>deleteDocument\<close> reject an empty document
  id and an id that contains a slash with the "cannot be empty or contain slashes"
  error, before any operation is called. For any other id the operation is called on
  the collection segments followed by the id: \<open>update\<close> and \<open>remove\<close> always,
  \<open>set\<close> as soon as \<open>getDB()\<close> has returned a handle.
\<close>

theorem document_id_validation:
  "(docId = [] \<or> CHR ''/'' \<in> set docId \<longrightarrow>
      addData h provider data docId merge =
        Inl (Error ''Document ids cannot be empty or contain slashes.'')
    \<and> updateField h provider docId data =
        Inl (Error ''Document ids cannot be empty or contain slashes.'')
    \<and> deleteDocument h provider docId =
        Inl (Error ''Document ids cannot be empty or contain slashes.''))
 \<and> (docId \<noteq> [] \<and> CHR ''/'' \<notin> set docId \<longrightarrow>
      updateField h provider docId data =
        Inr (UpdateCall (db h) (collectionSegments h @ [docId]) (replaceUndefinedWithNull data))
    \<and> deleteDocument h provider docId =
        Inr (RemoveCall (db h) (collectionSegments h @ [docId]))
    \<and> addData h provider data docId merge =
        (case getDB h provider of
           Inl e \<Rightarrow> Inl e
         | Inr d \<Rightarrow> Inr (SetCall d (collectionSegments h @ [docId]) (replaceUndefinedWithNull data)
                          (if merge then Some True else None))))"
proof (intro conjI impI)
  assume bad: "docId = [] \<or> CHR ''/'' \<in> set docId"
  show "addData h provider data docId merge =
        Inl (Error ''Document ids cannot be empty or contain slashes.'')"
    by (simp add: addData_def getDocumentPath_invalid [OF bad])
  show "updateField h provider docId data =
        Inl (Error ''Document ids cannot be empty or contain slashes.'')"
    by (simp add: updateField_def getDocumentPath_invalid [OF bad])
  show "deleteDocument h provider docId =
        Inl (Error ''Document ids cannot be empty or contain slashes.'')"
    by (simp add: deleteDocument_def getDocumentPath_invalid [OF bad])
next
  assume ok: "docId \<noteq> [] \<and> CHR ''/'' \<notin> set docId"
  then have p: "getDocumentPath h docId = Inr (collectionSegments h @ [docId])"
    by (simp add: getDocumentPath_valid)
  show "updateField h provider docId data =
        Inr (UpdateCall (db h) (collectionSegments h @ [docId]) (replaceUndefinedWithNull data))"
    by (simp add: updateField_def p)
  show "deleteDocument h provider docId = Inr (RemoveCall (db h) (collectionSegments h @ [docId]))"
    by (simp add: deleteDocument_def p)
  show "addData h provider data docId merge =
        (case getDB h provider of
           Inl e \<Rightarrow> Inl e
         | Inr d \<Rightarrow> Inr (SetCall d (collectionSegments h @ [docId]) (replaceUndefinedWithNull data)
                          (if merge then Some True else None)))"
    by (simp add: addData_def p split: sum.splits)
qed

theorem document_id_validation_witness:
  "addData todos_helper None
      (JObj PlainObject [(''title'', JStr ''example''), (''optional'', JUndefined)]) ''doc-1'' True =
     Inr (SetCall demo_db [''todos'', ''doc-1'']
            (JObj PlainObject [(''title'', JStr ''example''), (''optional'', JNull)]) (Some True))
   \<and> updateField todos_helper None ''doc-1'' (JObj PlainObject [(''flag'', JUndefined), (''active'', JBool True)]) =
       Inr (UpdateCall (Some demo_db) [''todos'', ''doc-1'']
              (JObj PlainObject [(''flag'', JNull), (''active'', JBool True)]))
   \<and> deleteDocument todos_helper None ''doc-1'' = Inr (RemoveCall (Some demo_db) [''todos'', ''doc-1''])
   \<and> deleteDocument todos_helper None ''a/b'' =
       Inl (Error ''Document ids cannot be empty or contain slashes.'')
   \<and> addData todos_helper None JNull '''' False =
       Inl (Error ''Document ids cannot be empty or contain slashes.'')"
  using document_id_validation [where docId = "''doc-1''" and h = todos_helper and provider = None
          and data = "JObj PlainObject [(''title'', JStr ''example''), (''optional'', JUndefined)]" and merge = True]
        document_id_validation [where docId = "''doc-1''" and h = todos_helper and provider = None
          and data = "JObj PlainObject [(''flag'', JUndefined), (''active'', JBool True)]" and merge = True]
        document_id_validation [where docId = "''a/b''" and h = todos_helper and provider = None
          and data = JNull and merge = False]
        document_id_validation [where docId = "[]" and h = todos_helper and provider = None
          and data = JNull and merge = False]
  by (simp add: todos_helper_def getDB_def fromEntries_def)

section \<open>Helpers without a handle\<close>

text \<open>
  Claim C9 does not hold of \<open>updateField\<close> and \<open>deleteDocument\<close>. On a helper made
  without a handle they pass the field \<open>this.db\<close>, which is \<open>null\<close>, to the operation
  and never ask \<open>getDB()\<close>, whether the provider is initialized or not; the
  repository's own \<open>update\<close> then fails on destructuring \<open>null\<close>. The four methods that
  go through \<open>getDB()\<close> throw the provider's error.
\<close>

theorem updateField_and_deleteDocument_bypass_getDB:
  "updateField todos_helper_without_db None ''doc-1'' (JObj PlainObject [(''active'', JBool True)]) =
     Inr (UpdateCall None [''todos'', ''doc-1''] (JObj PlainObject [(''active'', JBool True)]))
   \<and> deleteDocument todos_helper_without_db None ''doc-1'' =
       Inr (RemoveCall None [''todos'', ''doc-1''])
   \<and> updateField todos_helper_without_db (Some demo_db) ''doc-1'' (JObj PlainObject [(''active'', JBool True)]) =
       Inr (UpdateCall None [''todos'', ''doc-1''] (JObj PlainObject [(''active'', JBool True)]))
   \<and> update get_firestore_endpoint create_document_from_fields None [''todos'', ''doc-1'']
        (PlainObject, [(''active'', JBool True)]) =
       Inl TypeError
   \<and> addData todos_helper_without_db None (JObj PlainObject [(''active'', JBool True)]) ''doc-1'' False =
       Inl (Error ''DBProvider has not been initialized. Call DBProvider.getInstance().initialize() first.'')
   \<and> getData conv todos_helper_without_db None None =
       Inl (Error ''DBProvider has not been initialized. Call DBProvider.getInstance().initialize() first.'')
   \<and> getSingleDocument todos_helper_without_db None ''doc-1'' =
       Inl (Error ''DBProvider has not been initialized. Call DBProvider.getInstance().initialize() first.'')
   \<and> getDocsByIds todos_helper_without_db None [''doc-1''] =
       Inl (Error ''DBProvider has not been initialized. Call DBProvider.getInstance().initialize() first.'')"
  by (simp add: updateField_def deleteDocument_def addData_def getData_def getSingleDocument_def
        getDocsByIds_def getDocumentPath_def includes_slash_def todos_helper_without_db_def
        fromEntries_def update_def getDB_def DBProvider_getDB_def MAX_IN_FILTER_VALUES_def
        buildDocumentReferencePath_def)

section \<open>The request of \<open>update\<close>\<close>

text \<open>
  Claim C10, as stated, fails: \<open>for (const key in fields)\<close> also visits the enumerable
  properties that the fields object inherits, so an object whose only key is \<open>title\<close>
  and whose prototype has the enumerable property \<open>owner\<close> gets an
  \<open>updateMask.fieldPaths\<close> entry for \<open>owner\<close> as well.
\<close>

theorem update_inherited_key_counterexample:
  "map fst (snd sample_fields_with_prototype) = [''title'']
   \<and> update example_endpoint snd (Some demo_db) [''todos'', ''doc-1'']
        sample_fields_with_prototype =
       Inr \<lparr> endpoint =
               \<lparr> href = ''https://firestore.googleapis.com/v1/projects/demo-project/databases/(default)/documents/todos/doc-1'',
                 searchParams = [(''currentDocument.exists'', ''true''),
                                 (''updateMask.fieldPaths'', ''title''),
                                 (''updateMask.fieldPaths'', ''owner'')] \<rparr>,
             http_method = ''PATCH'',
             body = [(''title'', JStr ''example'')],
             headers = [(''Authorization'', ''Bearer fake-jwt'')] \<rparr>"
  by (simp add: sample_fields_with_prototype_def update_def example_endpoint_def demo_db_def
        searchParams_append_def)

text \<open>
  Claim C10, amended. Given a handle, \<open>update\<close> sends a \<open>PATCH\<close> request whose search
  parameters are those of the endpoint with \<open>currentDocument.exists\<close> set to \<open>true\<close>,
  followed by one \<open>updateMask.fieldPaths\<close> entry for each property that \<open>for...in\<close>
  visits, in order: the own keys of the fields object, then the inherited enumerable
  keys that no own key shadows. The request carries exactly one
  \<open>currentDocument.exists\<close> entry, and its \<open>updateMask.fieldPaths\<close> entries are those
  the endpoint had followed by these keys; for a plain fields object they are those
  the endpoint had followed by its own keys and no others.
\<close>

theorem update_search_parameters:
  fixes get_firestore_endpoint :: "string \<Rightarrow> string list \<Rightarrow> URL"
    and create_document_from_fields :: "object_kind \<times> (string \<times> jsval) list \<Rightarrow> 'body"
    and d :: DB and paths :: "string list"
    and kind :: object_kind and own :: "(string \<times> jsval) list"
  defines "before \<equiv> searchParams (get_firestore_endpoint (project_id d) paths)"
      and "visited \<equiv> map fst own @
             (case kind of
                PlainObject \<Rightarrow> []
              | OtherObject label inherited \<Rightarrow>
                  filter (\<lambda>key. key \<notin> set (map fst own)) inherited)"
  shows "\<exists>request.
           update get_firestore_endpoint create_document_from_fields (Some d) paths (kind, own)
             = Inr request
         \<and> searchParams (endpoint request) =
             searchParams_set before ''currentDocument.exists'' ''true''
             @ map (\<lambda>key. (''updateMask.fieldPaths'', key)) visited
         \<and> getAll (searchParams (endpoint request)) ''currentDocument.exists'' = [''true'']
         \<and> getAll (searchParams (endpoint request)) ''updateMask.fieldPaths'' =
             getAll before ''updateMask.fieldPaths'' @ visited
         \<and> (kind = PlainObject \<longrightarrow>
               getAll (searchParams (endpoint request)) ''updateMask.fieldPaths'' =
                 getAll before ''updateMask.fieldPaths'' @ map fst own)
         \<and> http_method request = ''PATCH''
         \<and> body request = create_document_from_fields (kind, own)"
proof -
  have keys: "for_in_keys (kind, own) = visited"
    by (cases kind) (simp_all add: visited_def)
  let ?request = "\<lparr> endpoint =
             (get_firestore_endpoint (project_id d) paths)
               \<lparr> searchParams :=
                   searchParams_set before ''currentDocument.exists'' ''true''
                   @ map (\<lambda>key. (''updateMask.fieldPaths'', key)) visited \<rparr>,
           http_method = ''PATCH'',
           body = create_document_from_fields (kind, own),
           headers = [(''Authorization'', ''Bearer '' @ jwt d)] \<rparr>"
  have run: "update get_firestore_endpoint create_document_from_fields (Some d) paths (kind, own)
             = Inr ?request"
    unfolding before_def keys [symmetric] by (rule update_request)
  have sp: "searchParams (endpoint ?request) =
             searchParams_set before ''currentDocument.exists'' ''true''
             @ map (\<lambda>key. (''updateMask.fieldPaths'', key)) visited"
    by simp
  have ne: "''currentDocument.exists'' \<noteq> ''updateMask.fieldPaths''" by simp
  have exists: "getAll (searchParams (endpoint ?request)) ''currentDocument.exists'' = [''true'']"
    unfolding sp getAll_append getAll_searchParams_set_same
      getAll_appended_keys_other [OF ne]
    by simp
  have mask: "getAll (searchParams (endpoint ?request)) ''updateMask.fieldPaths'' =
             getAll before ''updateMask.fieldPaths'' @ visited"
    unfolding sp getAll_append getAll_appended_keys_same
      getAll_searchParams_set_other [OF ne [symmetric]]
    by simp
  have plain: "kind = PlainObject \<longrightarrow>
               getAll (searchParams (endpoint ?request)) ''updateMask.fieldPaths'' =
                 getAll before ''updateMask.fieldPaths'' @ map fst own"
  proof
    assume "kind = PlainObject"
    then have "visited = map fst own" by (simp add: visited_def)
    with mask show "getAll (searchParams (endpoint ?request)) ''updateMask.fieldPaths'' =
                 getAll before ''updateMask.fieldPaths'' @ map fst own"
      by (simp only:)
  qed
  have m: "http_method ?request = ''PATCH''" by simp
  have b: "body ?request = create_document_from_fields (kind, own)" by simp
  from run sp exists mask plain m b show ?thesis by blast
qed

theorem update_search_parameters_witness:
  "\<exists>request.
      update example_endpoint snd (Some demo_db) [''todos'', ''doc-1'']
        (PlainObject, [(''flag'', JNull), (''active'', JBool True)]) = Inr request
    \<and> searchParams (endpoint request) =
        [(''currentDocument.exists'', ''true''), (''updateMask.fieldPaths'', ''flag''),
         (''updateMask.fieldPaths'', ''active'')]
    \<and> getAll (searchParams (endpoint request)) ''updateMask.fieldPaths'' = [''flag'', ''active'']
    \<and> http_method request = ''PATCH''"
  using update_search_parameters [where get_firestore_endpoint = example_endpoint
          and create_document_from_fields = snd and d = demo_db
          and paths = "[''todos'', ''doc-1'']" and kind = PlainObject
          and own = "[(''flag'', JNull), (''active'', JBool True)]"]
  apply (elim exE conjE)
  subgoal for request
    by (rule exI [of _ request]) (simp add: example_endpoint_def getAll_def)
  done

end
